theory Spec2Isabelle
  imports Complex_Main
begin

section \<open>GTFS frequency map generator: the merge/diff core of \<open>process_frequencies.py\<close>\<close>

text \<open>
  The program is Python 2 (\<open>print\<close> statements, \<open>itervalues\<close>). Its core
  (\<open>diff_layers\<close>, \<open>merge_layers\<close> and the per-route loop of \<open>main\<close>) works on
  dictionaries \<open>{'line': geometry, 'count': n}\<close> and calls the geometry library
  for every geometric question. The library is not part of the repository, so the
  functions below take it as a parameter: a record of the operations the core calls.
\<close>

subsection \<open>Data\<close>

text \<open>The dictionary \<open>{'line': ..., 'count': ...}\<close> the core passes around.\<close>

record 'g shape =
  line :: 'g
  count :: int

text \<open>
  The geometry operations the core uses, on geometries of type \<open>'g\<close>:
  \<open>g.type\<close>, \<open>g.length\<close>, iteration \<open>for p in g\<close> (\<open>None\<close> when the
  object is not iterable), \<open>g.difference(h)\<close>, \<open>g.intersection(h)\<close>,
  \<open>g.buffer(d)\<close>, and \<open>linemerge\<close>, which the program calls both on a geometry
  (line 48) and on a list of geometries (lines 72 and 224).
\<close>

record 'g backend =
  geom_type :: "'g \<Rightarrow> string"
  geom_length :: "'g \<Rightarrow> real"
  geoms :: "'g \<Rightarrow> 'g list option"
  difference :: "'g \<Rightarrow> 'g \<Rightarrow> 'g"
  intersection :: "'g \<Rightarrow> 'g \<Rightarrow> 'g"
  buffer :: "'g \<Rightarrow> real \<Rightarrow> 'g"
  linemerge :: "'g \<Rightarrow> 'g"
  linemerge_seq :: "'g list \<Rightarrow> 'g"

text \<open>The exceptions the core can raise: iterating an object that is not iterable,
  and \<open>seed_list[0]\<close> on an empty list.\<close>

datatype error = TypeError | IndexError

text \<open>Lines 134 and 135.\<close>

definition TOL :: int where
  "TOL = 5"

definition bTol :: int where
  "bTol = 1"

subsection \<open>Python semantics the core relies on\<close>

text \<open>
  Line 45 compares the geometry object itself with \<open>TOL\<close>: \<open>g1diff > TOL\<close>, not
  \<open>g1diff.length > TOL\<close>. The geometry classes define no ordering methods, and
  Python 2 orders a number below every object that is not a number; so the comparison
  is true whatever the geometry and whatever the number.
\<close>

definition py2_object_gt_number :: "'g \<Rightarrow> int \<Rightarrow> bool" where
  "py2_object_gt_number g n = True"

text \<open>\<open>for p in g\<close> and \<open>list(g)\<close>: a \<open>TypeError\<close> when \<open>g\<close> is not iterable.\<close>

definition iterate :: "'g backend \<Rightarrow> 'g \<Rightarrow> error + 'g list" where
  "iterate bk g = (case geoms bk g of None \<Rightarrow> Inl TypeError | Some gs \<Rightarrow> Inr gs)"

subsection \<open>\<open>diff_layers\<close> (lines 42 to 54)\<close>

definition diff_layers :: "'g backend \<Rightarrow> 'g shape \<Rightarrow> 'g shape \<Rightarrow> error + 'g shape list" where
  "diff_layers bk geom1 geom2 =
     (let g1diff = difference bk (line geom1) (line geom2) in
      if geom_type bk g1diff = ''LineString'' \<and> py2_object_gt_number g1diff TOL then
        Inr [\<lparr>line = g1diff, count = count geom1\<rparr>]
      else if geom_type bk g1diff = ''MultiLineString'' then
        (let merge = linemerge bk g1diff in
         case (if geom_type bk merge = ''LineString'' then Inr [merge] else iterate bk merge) of
           Inl e \<Rightarrow> Inl e
         | Inr ms \<Rightarrow>
             Inr (map (\<lambda>g. \<lparr>line = g, count = count geom1\<rparr>)
                    (filter (\<lambda>g. geom_length bk g > real_of_int TOL) ms)))
      else Inr [])"

subsection \<open>\<open>merge_layers\<close> (lines 57 to 87)\<close>

text \<open>Lines 61 to 77: the pieces of the intersection that survive the tolerance.\<close>

definition surviving_intersect :: "'g backend \<Rightarrow> 'g \<Rightarrow> error + 'g list" where
  "surviving_intersect bk intersect_geom =
     (if geom_type bk intersect_geom = ''LineString'' then
        (if geom_length bk intersect_geom > real_of_int TOL then Inr [intersect_geom] else Inr [])
      else if geom_type bk intersect_geom = ''Point'' then Inr []
      else
        (case iterate bk intersect_geom of
           Inl e \<Rightarrow> Inl e
         | Inr gs \<Rightarrow>
             (let intersect =
                    filter (\<lambda>g. geom_type bk g \<noteq> ''Point'' \<and> geom_length bk g > real_of_int TOL) gs
              in if intersect \<noteq> [] then
                   (let merged = linemerge_seq bk intersect in
                    case (if geom_type bk merged = ''LineString'' then Inr [merged]
                          else iterate bk merged) of
                      Inl e \<Rightarrow> Inl e
                    | Inr ms \<Rightarrow> Inr (filter (\<lambda>g. geom_length bk g > real_of_int TOL) ms))
                 else Inr intersect)))"

definition merge_layers ::
  "'g backend \<Rightarrow> 'g shape \<Rightarrow> 'g shape \<Rightarrow> error + ('g shape list \<times> 'g shape list)" where
  "merge_layers bk geom1 geom2 =
     (let g2l = buffer bk (line geom2) (real_of_int bTol);
          intersect_geom = intersection bk (line geom1) g2l
      in case surviving_intersect bk intersect_geom of
           Inl e \<Rightarrow> Inl e
         | Inr intersect \<Rightarrow>
             if intersect = [] then Inr ([], [geom1, geom2])
             else
               (let cnt = count geom1 + count geom2;
                    intersect' = map (\<lambda>g. \<lparr>line = g, count = cnt\<rparr>) intersect;
                    sg1 = \<lparr>line = buffer bk (line geom1) (real_of_int bTol), count = count geom2\<rparr>;
                    sg2 = \<lparr>line = g2l, count = count geom2\<rparr>
                in case diff_layers bk geom1 sg2 of
                     Inl e \<Rightarrow> Inl e
                   | Inr g1 \<Rightarrow>
                       (case diff_layers bk geom2 sg1 of
                          Inl e \<Rightarrow> Inl e
                        | Inr g2 \<Rightarrow> Inr (intersect', g1 @ g2))))"

subsection \<open>The per-route loop of \<open>main\<close> (lines 192 to 226)\<close>

text \<open>
  Lines 199 to 209: the \<open>for\<close> loop over \<open>seed_list[1:]\<close>, with its two variables
  \<open>merged_list\<close> and \<open>foundMatch\<close>.
\<close>

fun scan ::
  "'g backend \<Rightarrow> 'g shape \<Rightarrow> 'g shape list \<Rightarrow> 'g shape list \<Rightarrow> bool \<Rightarrow>
     error + ('g shape list \<times> bool)" where
  "scan bk candidate [] merged_list foundMatch = Inr (merged_list, foundMatch)"
| "scan bk candidate (s # rest) merged_list foundMatch =
     (if foundMatch then scan bk candidate rest (merged_list @ [s]) foundMatch
      else
        (case merge_layers bk candidate s of
           Inl e \<Rightarrow> Inl e
         | Inr (intersect, uniques) \<Rightarrow>
             if intersect \<noteq> [] then scan bk candidate rest (merged_list @ intersect @ uniques) True
             else scan bk candidate rest (merged_list @ [s]) foundMatch))"

text \<open>Lines 196 to 212: one round of the \<open>while\<close> loop, on the pair
  \<open>(seed_list, unique_list)\<close>.\<close>

definition round_step ::
  "'g backend \<Rightarrow> 'g shape list \<Rightarrow> 'g shape list \<Rightarrow> error + ('g shape list \<times> 'g shape list)" where
  "round_step bk seed_list unique_list =
     (case seed_list of
        [] \<Rightarrow> Inl IndexError
      | candidate # rest \<Rightarrow>
          (case scan bk candidate rest [] False of
             Inl e \<Rightarrow> Inl e
           | Inr (merged_list, foundMatch) \<Rightarrow>
               Inr (merged_list,
                    if \<not> foundMatch then unique_list @ [candidate] else unique_list)))"

text \<open>Lines 195 to 212: the \<open>while seed_list\<close> loop. It may run forever; then the
  value is \<open>None\<close>.\<close>

partial_function (option) worklist_loop ::
  "'g backend \<Rightarrow> 'g shape list \<Rightarrow> 'g shape list \<Rightarrow> (error + 'g shape list) option" where
  "worklist_loop bk seed_list unique_list =
     (if seed_list = [] then Some (Inr unique_list)
      else
        (case round_step bk seed_list unique_list of
           Inl e \<Rightarrow> Some (Inl e)
         | Inr (merged_list, unique_list') \<Rightarrow> worklist_loop bk merged_list unique_list'))"

text \<open>
  Lines 214 to 219: the dictionary \<open>segments\<close>, from a count to the shapes with that
  count, as an association list. Python 2 enumerates a dictionary's keys in an order
  of its own; the association list keeps the keys in the order of their first
  insertion, and the theorems on the output speak of its members, not of their order.
\<close>

fun segments_add :: "'g shape \<Rightarrow> (int \<times> 'g shape list) list \<Rightarrow> (int \<times> 'g shape list) list" where
  "segments_add s [] = [(count s, [s])]"
| "segments_add s ((cnt, ss) # segs) =
     (if cnt = count s then (cnt, ss @ [s]) # segs else (cnt, ss) # segments_add s segs)"

fun segments_of :: "'g shape list \<Rightarrow> (int \<times> 'g shape list) list \<Rightarrow> (int \<times> 'g shape list) list" where
  "segments_of [] segs = segs"
| "segments_of (s # unique_list) segs = segments_of unique_list (segments_add s segs)"

text \<open>Lines 220 to 225: one output entry for each key of \<open>segments\<close>.\<close>

definition regroup :: "'g backend \<Rightarrow> 'g shape list \<Rightarrow> 'g shape list" where
  "regroup bk unique_list =
     map (\<lambda>(cnt, ss). \<lparr>line = linemerge_seq bk (map line ss), count = cnt\<rparr>)
       (segments_of unique_list [])"

text \<open>Lines 192 to 226 for one route: the loop, then the regrouping.\<close>

definition reconcile :: "'g backend \<Rightarrow> 'g shape list \<Rightarrow> (error + 'g shape list) option" where
  "reconcile bk shape_list =
     (case worklist_loop bk shape_list [] of
        None \<Rightarrow> None
      | Some (Inl e) \<Rightarrow> Some (Inl e)
      | Some (Inr unique_list) \<Rightarrow> Some (Inr (regroup bk unique_list)))"

subsection \<open>A geometry backend for shapes on the x-axis\<close>

text \<open>
  Modelled from the spec: the geometry primitives adapter (section 2, component 1:
  line construction, intersection, difference, buffering, length, line-merging of
  disconnected pieces), which wraps an external library that is not in the
  repository. The model is plane geometry, exact, for the shapes the scenarios below
  use and no others: a straight line \<open>[(x1, 0), (x2, 0)]\<close> on the x-axis with
  \<open>x1 < x2\<close>, and the buffer of such a line. Asked about any other geometry, its
  operations answer with the empty collection.
\<close>

type_synonym coord = "real \<times> real"

text \<open>The kinds of geometry, named as \<open>g.type\<close> names them. The only polygons the
  program builds are buffers, so a polygon is kept as the geometry that was buffered
  and the distance: the set of points no further than that from the geometry.\<close>

datatype geom =
    Point coord
  | LineString "coord list"
  | MultiLineString "coord list list"
  | GeometryCollection "geom list"
  | Polygon geom real

fun axis_type :: "geom \<Rightarrow> string" where
  "axis_type (Point p) = ''Point''"
| "axis_type (LineString cs) = ''LineString''"
| "axis_type (MultiLineString ps) = ''MultiLineString''"
| "axis_type (GeometryCollection gs) = ''GeometryCollection''"
| "axis_type (Polygon g d) = ''Polygon''"

fun seg_length :: "coord \<Rightarrow> coord \<Rightarrow> real" where
  "seg_length (x1, y1) (x2, y2) = sqrt ((x2 - x1)\<^sup>2 + (y2 - y1)\<^sup>2)"

fun path_length :: "coord list \<Rightarrow> real" where
  "path_length (p # q # cs) = seg_length p q + path_length (q # cs)"
| "path_length cs = 0"

text \<open>\<open>g.length\<close>: the length of a line, the perimeter of a buffer of a line.\<close>

fun axis_length :: "geom \<Rightarrow> real" where
  "axis_length (Point p) = 0"
| "axis_length (LineString cs) = path_length cs"
| "axis_length (MultiLineString ps) = sum_list (map path_length ps)"
| "axis_length (GeometryCollection gs) = sum_list (map axis_length gs)"
| "axis_length (Polygon g d) = 2 * axis_length g + 2 * pi * d"

text \<open>Iteration: the parts of a multi-part geometry; the other kinds are not iterable.\<close>

fun axis_geoms :: "geom \<Rightarrow> geom list option" where
  "axis_geoms (MultiLineString ps) = Some (map LineString ps)"
| "axis_geoms (GeometryCollection gs) = Some gs"
| "axis_geoms g = None"

text \<open>The interval of the x-axis a line covers, and the interval a line or the
  buffer of a line covers: a buffer by \<open>d\<close> reaches \<open>d\<close> beyond both ends.\<close>

fun line_span :: "geom \<Rightarrow> (real \<times> real) option" where
  "line_span (LineString [(x1, y1), (x2, y2)]) =
     (if y1 = 0 \<and> y2 = 0 \<and> x1 < x2 then Some (x1, x2) else None)"
| "line_span g = None"

fun axis_span :: "geom \<Rightarrow> (real \<times> real) option" where
  "axis_span (Polygon g d) =
     (case line_span g of
        Some (lo, hi) \<Rightarrow> if 0 < d then Some (lo - d, hi + d) else None
      | None \<Rightarrow> None)"
| "axis_span g = line_span g"

definition axis_piece :: "real \<times> real \<Rightarrow> coord list" where
  "axis_piece s = [(fst s, 0), (snd s, 0)]"

text \<open>The geometry made of the given intervals, left to right: empty, one line,
  or several lines.\<close>

definition of_spans :: "(real \<times> real) list \<Rightarrow> geom" where
  "of_spans ss =
     (case ss of
        [] \<Rightarrow> GeometryCollection []
      | [s] \<Rightarrow> LineString (axis_piece s)
      | _ \<Rightarrow> MultiLineString (map axis_piece ss))"

text \<open>The part of the line \<open>a\<close> inside \<open>b\<close>: a line, a single point, or nothing.\<close>

definition axis_intersection :: "geom \<Rightarrow> geom \<Rightarrow> geom" where
  "axis_intersection a b =
     (case (line_span a, axis_span b) of
        (Some (a1, a2), Some (b1, b2)) \<Rightarrow>
          (let lo = max a1 b1; hi = min a2 b2
           in if lo < hi then LineString (axis_piece (lo, hi))
              else if lo = hi then Point (lo, 0)
              else GeometryCollection [])
      | _ \<Rightarrow> GeometryCollection [])"

text \<open>The part of the line \<open>a\<close> outside \<open>b\<close>: what is left of \<open>a\<close> before \<open>b\<close>
  begins and after \<open>b\<close> ends.\<close>

definition axis_difference :: "geom \<Rightarrow> geom \<Rightarrow> geom" where
  "axis_difference a b =
     (case (line_span a, axis_span b) of
        (Some (a1, a2), Some (b1, b2)) \<Rightarrow>
          of_spans ((if a1 < min a2 b1 then [(a1, min a2 b1)] else []) @
                    (if max a1 b2 < a2 then [(max a1 b2, a2)] else []))
      | _ \<Rightarrow> GeometryCollection [])"

text \<open>Line-merging: lines that meet end to end become one line.\<close>

fun join_touching :: "(real \<times> real) list \<Rightarrow> (real \<times> real) list" where
  "join_touching ((a1, a2) # (b1, b2) # rest) =
     (if a2 = b1 then join_touching ((a1, b2) # rest)
      else (a1, a2) # join_touching ((b1, b2) # rest))"
| "join_touching ss = ss"

definition axis_linemerge_seq :: "geom list \<Rightarrow> geom" where
  "axis_linemerge_seq gs =
     (if list_all (\<lambda>g. line_span g \<noteq> None) gs
      then of_spans (join_touching (sort_key fst (List.map_filter line_span gs)))
      else GeometryCollection [])"

fun axis_linemerge :: "geom \<Rightarrow> geom" where
  "axis_linemerge (MultiLineString ps) = axis_linemerge_seq (map LineString ps)"
| "axis_linemerge g = GeometryCollection []"

text \<open>Modelled from the spec: the geometry primitives adapter, for lines on the
  x-axis and their buffers.\<close>

definition axis_backend :: "geom backend" where
  "axis_backend =
     \<lparr>geom_type = axis_type, geom_length = axis_length, geoms = axis_geoms,
      difference = axis_difference, intersection = axis_intersection,
      buffer = Polygon, linemerge = axis_linemerge, linemerge_seq = axis_linemerge_seq\<rparr>"

text \<open>The shape \<open>{'line': LineString([(x1, 0), (x2, 0)]), 'count': n}\<close>.\<close>

definition segment :: "real \<Rightarrow> real \<Rightarrow> int \<Rightarrow> geom shape" where
  "segment x1 x2 n = \<lparr>line = LineString [(x1, 0), (x2, 0)], count = n\<rparr>"

text \<open>Modelled from the spec: a geometry backend that yields an area where only a
  line is expected (section 7, InvalidGeometryKind). It answers every difference and
  every intersection with a polygon (the first operand, buffered) and is the backend
  above otherwise.\<close>

definition polygon_backend :: "geom backend" where
  "polygon_backend =
     axis_backend\<lparr>difference := (\<lambda>a b. Polygon a 1), intersection := (\<lambda>a b. Polygon a 1)\<rparr>"

section \<open>Evaluation on the x-axis\<close>

lemmas axis_simps =
  axis_backend_def axis_difference_def axis_intersection_def of_spans_def axis_piece_def
  axis_linemerge_seq_def segment_def TOL_def bTol_def py2_object_gt_number_def iterate_def

lemmas core_defs = merge_layers_def surviving_intersect_def diff_layers_def

lemma merge_0_10_with_5_15:
  "merge_layers axis_backend (segment 0 10 2) (segment 5 15 4) =
     Inr ([segment 4 10 6], [segment 0 4 2, segment 11 15 4])"
  by (simp add: core_defs axis_simps)

lemma merge_0_3_with_20_30:
  "merge_layers axis_backend (segment 0 3 1) (segment 20 30 1) =
     Inr ([], [segment 0 3 1, segment 20 30 1])"
  by (simp add: core_defs axis_simps)

lemma diff_0_30_minus_10_12:
  "diff_layers axis_backend (segment 0 30 2) (segment 10 12 n) =
     Inr [segment 0 10 2, segment 12 30 2]"
  by (simp add: core_defs axis_simps)

section \<open>The scan of one round\<close>

lemma scan_found: "scan bk c xs m True = Inr (m @ xs, True)"
  by (induction xs arbitrary: m) simp_all

lemma scan_no_match:
  "\<forall>s\<in>set xs. \<exists>u. merge_layers bk c s = Inr ([], u) \<Longrightarrow>
   scan bk c (xs @ ys) m False = scan bk c ys (m @ xs) False"
  by (induction xs arbitrary: m) auto

text \<open>
  C1. In a round on the worklist \<open>c # pre @ s # post\<close>, where no item of \<open>pre\<close>
  overlaps the probe \<open>c\<close> and \<open>s\<close> is the first item whose merge with \<open>c\<close> has a
  non-empty overlap, the next worklist is \<open>pre\<close>, then the overlap and the residual
  of that merge in place of \<open>c\<close> and \<open>s\<close>, then \<open>post\<close> unchanged, whatever the
  items of \<open>post\<close> are (they are not compared); the accumulator is unchanged. When
  no item of the rest overlaps the probe, the probe is appended to the accumulator
  and the rest is the next worklist.
\<close>

theorem round_step_first_match:
  "((\<forall>x\<in>set pre. \<exists>u. merge_layers bk c x = Inr ([], u)) \<and>
    merge_layers bk c s = Inr (ov, res) \<and> ov \<noteq> [] \<longrightarrow>
      round_step bk (c # pre @ s # post) U = Inr (pre @ ov @ res @ post, U)) \<and>
   ((\<forall>x\<in>set rest. \<exists>u. merge_layers bk c x = Inr ([], u)) \<longrightarrow>
      round_step bk (c # rest) U = Inr (rest, U @ [c]))"
proof (intro conjI impI)
  assume h: "(\<forall>x\<in>set pre. \<exists>u. merge_layers bk c x = Inr ([], u)) \<and>
    merge_layers bk c s = Inr (ov, res) \<and> ov \<noteq> []"
  then have "scan bk c (pre @ s # post) [] False = scan bk c (s # post) pre False"
    using scan_no_match [of pre bk c "s # post" "[]"] by simp
  also have "\<dots> = Inr (pre @ ov @ res @ post, True)"
    using h by (simp add: scan_found)
  finally show "round_step bk (c # pre @ s # post) U = Inr (pre @ ov @ res @ post, U)"
    by (simp add: round_step_def)
next
  assume "\<forall>x\<in>set rest. \<exists>u. merge_layers bk c x = Inr ([], u)"
  then have "scan bk c rest [] False = Inr (rest, False)"
    using scan_no_match [of rest bk c "[]" "[]"] by simp
  then show "round_step bk (c # rest) U = Inr (rest, U @ [c])"
    by (simp add: round_step_def)
qed

text \<open>
  A round where the probe \<open>[(0,0)-(10,0)]\<close> passes a far item, matches
  \<open>[(5,0)-(15,0)]\<close> and leaves \<open>[(8,0)-(20,0)]\<close>, which it also overlaps,
  uncompared; and a round where the probe \<open>[(4,0)-(10,0)]\<close> matches nothing.
\<close>

theorem round_step_first_match_witness:
  "round_step axis_backend
     [segment 0 10 2, segment 30 40 1, segment 5 15 4, segment 8 20 7] [] =
     Inr ([segment 30 40 1, segment 4 10 6, segment 0 4 2, segment 11 15 4, segment 8 20 7], []) \<and>
   round_step axis_backend [segment 4 10 6, segment 0 4 2, segment 11 15 4] [] =
     Inr ([segment 0 4 2, segment 11 15 4], [segment 4 10 6])"
proof
  have pre: "\<forall>x\<in>set [segment 30 40 1].
      \<exists>u. merge_layers axis_backend (segment 0 10 2) x = Inr ([], u)"
    by (simp add: core_defs axis_simps)
  show "round_step axis_backend
     [segment 0 10 2, segment 30 40 1, segment 5 15 4, segment 8 20 7] [] =
     Inr ([segment 30 40 1, segment 4 10 6, segment 0 4 2, segment 11 15 4, segment 8 20 7], [])"
    using round_step_first_match
      [where bk = axis_backend and c = "segment 0 10 2" and pre = "[segment 30 40 1]"
         and s = "segment 5 15 4" and post = "[segment 8 20 7]" and U = "[]"
         and ov = "[segment 4 10 6]" and res = "[segment 0 4 2, segment 11 15 4]"]
      pre merge_0_10_with_5_15
    by simp
  have rest: "\<forall>x\<in>set [segment 0 4 2, segment 11 15 4].
      \<exists>u. merge_layers axis_backend (segment 4 10 6) x = Inr ([], u)"
    by (simp add: core_defs axis_simps)
  show "round_step axis_backend [segment 4 10 6, segment 0 4 2, segment 11 15 4] [] =
     Inr ([segment 0 4 2, segment 11 15 4], [segment 4 10 6])"
    using round_step_first_match
      [where bk = axis_backend and c = "segment 4 10 6"
         and rest = "[segment 0 4 2, segment 11 15 4]" and U = "[]"]
      rest
    by simp
qed

section \<open>\<open>merge_layers\<close>\<close>

lemma surviving_intersect_lengths:
  "surviving_intersect bk g = Inr ps \<Longrightarrow> \<forall>p\<in>set ps. geom_length bk p > real_of_int TOL"
  by (auto simp: surviving_intersect_def Let_def split: if_splits sum.splits)

text \<open>
  C2. When pieces of the intersection of \<open>a\<close> with the buffer of \<open>b\<close> survive, the
  merge returns one overlap entry for each surviving piece, each with the count
  \<open>a.count + b.count\<close>, and as residual the difference of \<open>a\<close> and the buffered
  \<open>b\<close> followed by the difference of \<open>b\<close> and the buffered \<open>a\<close>; both buffered
  shapes carry \<open>b.count\<close>.
\<close>

theorem merge_layers_overlap:
  assumes "surviving_intersect bk
             (intersection bk (line a) (buffer bk (line b) (real_of_int bTol))) = Inr pieces"
    and "pieces \<noteq> []"
    and "diff_layers bk a \<lparr>line = buffer bk (line b) (real_of_int bTol), count = count b\<rparr> = Inr g1"
    and "diff_layers bk b \<lparr>line = buffer bk (line a) (real_of_int bTol), count = count b\<rparr> = Inr g2"
  shows "merge_layers bk a b =
           Inr (map (\<lambda>g. \<lparr>line = g, count = count a + count b\<rparr>) pieces, g1 @ g2)"
  using assms by (simp add: merge_layers_def)

theorem merge_layers_overlap_witness:
  "merge_layers axis_backend (segment 0 10 2) (segment 5 15 4) =
     Inr ([segment 4 10 6], [segment 0 4 2] @ [segment 11 15 4])"
proof -
  have 1: "surviving_intersect axis_backend
      (intersection axis_backend (line (segment 0 10 2))
         (buffer axis_backend (line (segment 5 15 4)) (real_of_int bTol))) =
      Inr [LineString [(4, 0), (10, 0)]]"
    by (simp add: core_defs axis_simps)
  have 2: "[LineString [(4, 0), (10, 0)]] \<noteq> []"
    by simp
  have 3: "diff_layers axis_backend (segment 0 10 2)
      \<lparr>line = buffer axis_backend (line (segment 5 15 4)) (real_of_int bTol),
       count = count (segment 5 15 4)\<rparr> = Inr [segment 0 4 2]"
    by (simp add: core_defs axis_simps)
  have 4: "diff_layers axis_backend (segment 5 15 4)
      \<lparr>line = buffer axis_backend (line (segment 0 10 2)) (real_of_int bTol),
       count = count (segment 5 15 4)\<rparr> = Inr [segment 11 15 4]"
    by (simp add: core_defs axis_simps)
  show ?thesis
    using merge_layers_overlap [OF 1 2 3 4] by (simp add: segment_def)
qed

text \<open>
  C3. When no piece of the intersection survives (the intersection is a single line
  no longer than \<open>TOL\<close>; or a single point; or a collection, possibly empty, none of
  whose parts is kept by the filter, or whose kept parts, merged again, are a line
  no longer than \<open>TOL\<close> or several pieces each no longer than \<open>TOL\<close>), the merge
  returns an empty overlap and exactly \<open>[a, b]\<close> as the residual.
\<close>

theorem merge_layers_no_overlap:
  assumes "ig = intersection bk (line a) (buffer bk (line b) (real_of_int bTol))"
    and "(geom_type bk ig = ''LineString'' \<and> geom_length bk ig \<le> real_of_int TOL) \<or>
         geom_type bk ig = ''Point'' \<or>
         (geom_type bk ig \<noteq> ''LineString'' \<and> geom_type bk ig \<noteq> ''Point'' \<and>
          (\<exists>gs. geoms bk ig = Some gs \<and>
             (let kept = filter (\<lambda>g. geom_type bk g \<noteq> ''Point'' \<and>
                                      geom_length bk g > real_of_int TOL) gs;
                  merged = linemerge_seq bk kept
              in kept = [] \<or>
                 (geom_type bk merged = ''LineString'' \<and>
                  geom_length bk merged \<le> real_of_int TOL) \<or>
                 (geom_type bk merged \<noteq> ''LineString'' \<and>
                  (\<exists>ms. geoms bk merged = Some ms \<and>
                        (\<forall>m\<in>set ms. geom_length bk m \<le> real_of_int TOL))))))"
  shows "merge_layers bk a b = Inr ([], [a, b])"
proof -
  have "surviving_intersect bk ig = Inr []"
    using assms(2)
    by (auto simp: surviving_intersect_def iterate_def Let_def filter_empty_conv not_less)
  then show ?thesis
    using assms(1) by (simp add: merge_layers_def)
qed

text \<open>
  Three of the cases. The intersection of \<open>[(4,0)-(10,0)]\<close> with the buffer of
  \<open>[(0,0)-(4,0)]\<close> is the line \<open>[(4,0)-(5,0)]\<close>, of length 1; with the buffer
  of \<open>[(11,0)-(15,0)]\<close> it is the point \<open>(10,0)\<close>; and the intersection of
  \<open>[(0,0)-(4,0)]\<close> with the buffer of \<open>[(11,0)-(15,0)]\<close> is empty.
\<close>

theorem merge_layers_no_overlap_witness:
  "merge_layers axis_backend (segment 4 10 6) (segment 0 4 2) =
     Inr ([], [segment 4 10 6, segment 0 4 2]) \<and>
   merge_layers axis_backend (segment 4 10 6) (segment 11 15 4) =
     Inr ([], [segment 4 10 6, segment 11 15 4]) \<and>
   merge_layers axis_backend (segment 0 4 2) (segment 11 15 4) =
     Inr ([], [segment 0 4 2, segment 11 15 4])"
proof (intro conjI)
  have 1: "LineString [(4, 0), (5, 0)] =
      intersection axis_backend (line (segment 4 10 6))
        (buffer axis_backend (line (segment 0 4 2)) (real_of_int bTol))"
    by (simp add: axis_simps)
  have 2: "geom_type axis_backend (LineString [(4, 0), (5, 0)]) = ''LineString'' \<and>
      geom_length axis_backend (LineString [(4, 0), (5, 0)]) \<le> real_of_int TOL"
    by (simp add: axis_simps)
  show "merge_layers axis_backend (segment 4 10 6) (segment 0 4 2) =
     Inr ([], [segment 4 10 6, segment 0 4 2])"
    by (rule merge_layers_no_overlap [OF 1]) (use 2 in blast)
next
  have 1: "Point (10, 0) =
      intersection axis_backend (line (segment 4 10 6))
        (buffer axis_backend (line (segment 11 15 4)) (real_of_int bTol))"
    by (simp add: axis_simps)
  have 2: "geom_type axis_backend (Point (10, 0)) = ''Point''"
    by (simp add: axis_simps)
  show "merge_layers axis_backend (segment 4 10 6) (segment 11 15 4) =
     Inr ([], [segment 4 10 6, segment 11 15 4])"
    by (rule merge_layers_no_overlap [OF 1]) (use 2 in blast)
next
  have 1: "GeometryCollection [] =
      intersection axis_backend (line (segment 0 4 2))
        (buffer axis_backend (line (segment 11 15 4)) (real_of_int bTol))"
    by (simp add: axis_simps)
  have 2: "geom_type axis_backend (GeometryCollection []) \<noteq> ''LineString'' \<and>
      geom_type axis_backend (GeometryCollection []) \<noteq> ''Point'' \<and>
      geoms axis_backend (GeometryCollection []) = Some []"
    by (simp add: axis_simps)
  show "merge_layers axis_backend (segment 0 4 2) (segment 11 15 4) =
     Inr ([], [segment 0 4 2, segment 11 15 4])"
    by (rule merge_layers_no_overlap [OF 1]) (use 2 in \<open>simp add: Let_def\<close>)
qed

section \<open>\<open>diff_layers\<close>\<close>

text \<open>
  C10. The count of the second argument of \<open>diff_layers\<close> has no influence: two
  second arguments with the same line give the same result (the same pieces or the
  same error), and every piece returned carries the count of the first argument.
\<close>

theorem diff_layers_ignores_second_count:
  "(line b = line b' \<longrightarrow> diff_layers bk a b = diff_layers bk a b') \<and>
   (diff_layers bk a b = Inr ps \<longrightarrow> (\<forall>p\<in>set ps. count p = count a))"
  by (auto simp: diff_layers_def Let_def split: if_splits sum.splits)

theorem diff_layers_ignores_second_count_witness:
  "diff_layers axis_backend (segment 0 30 2) (segment 10 12 4) =
     diff_layers axis_backend (segment 0 30 2) (segment 10 12 9) \<and>
   diff_layers axis_backend (segment 0 30 2) (segment 10 12 4) =
     Inr [segment 0 10 2, segment 12 30 2] \<and>
   count (segment 0 10 2) = count (segment 0 30 2) \<and>
   count (segment 12 30 2) = count (segment 0 30 2)"
proof -
  have same: "line (segment 10 12 4) = line (segment 10 12 9)"
    by (simp add: segment_def)
  have res: "diff_layers axis_backend (segment 0 30 2) (segment 10 12 4) =
      Inr [segment 0 10 2, segment 12 30 2]"
    by (rule diff_0_30_minus_10_12)
  show ?thesis
    using diff_layers_ignores_second_count
      [where bk = axis_backend and a = "segment 0 30 2" and b = "segment 10 12 4"
         and b' = "segment 10 12 9" and ps = "[segment 0 10 2, segment 12 30 2]"]
      same res
    by simp
qed

text \<open>
  C5. The specification has a difference that is a single line no longer than
  \<open>TOL\<close> give the empty sequence. The program returns the line. In the merge of
  \<open>[(0,0)-(10,0)]\<close> (count 2) with \<open>[(5,0)-(15,0)]\<close> (count 4), line 85 calls
  \<open>diff_layers\<close> on the first shape and the buffer of the second; the difference
  is the single line \<open>[(0,0)-(4,0)]\<close>, of length 4, and \<open>diff_layers\<close> returns it
  with the count 2. Line 45 compares the geometry object, not its length, with
  \<open>TOL\<close>.
\<close>

theorem diff_layers_keeps_short_line:
  "geom_type axis_backend
     (difference axis_backend (line (segment 0 10 2))
        (buffer axis_backend (line (segment 5 15 4)) (real_of_int bTol))) = ''LineString'' \<and>
   geom_length axis_backend
     (difference axis_backend (line (segment 0 10 2))
        (buffer axis_backend (line (segment 5 15 4)) (real_of_int bTol))) = 4 \<and>
   diff_layers axis_backend (segment 0 10 2)
     \<lparr>line = buffer axis_backend (line (segment 5 15 4)) (real_of_int bTol), count = 4\<rparr> =
     Inr [segment 0 4 2]"
  by (simp add: core_defs axis_simps)

section \<open>The tolerance floor\<close>

text \<open>
  C4, as amended. Every overlap piece that \<open>merge_layers\<close> returns is longer than
  \<open>TOL\<close>; every piece that \<open>diff_layers\<close> returns from a difference of several
  lines (a \<open>MultiLineString\<close>) is longer than \<open>TOL\<close>; and when the overlap is
  empty the residual is the two inputs unchanged, whatever their lengths.
\<close>

theorem tolerance_floor_by_design:
  "(merge_layers bk a b = Inr (ov, res) \<longrightarrow>
      (\<forall>p\<in>set ov. geom_length bk (line p) > real_of_int TOL)) \<and>
   (geom_type bk (difference bk (line a) (line b)) = ''MultiLineString'' \<and>
    diff_layers bk a b = Inr ps \<longrightarrow>
      (\<forall>p\<in>set ps. geom_length bk (line p) > real_of_int TOL)) \<and>
   (merge_layers bk a b = Inr ([], res) \<longrightarrow> res = [a, b])"
proof (intro conjI impI)
  assume "merge_layers bk a b = Inr (ov, res)"
  then show "\<forall>p\<in>set ov. geom_length bk (line p) > real_of_int TOL"
    using surviving_intersect_lengths
      [of bk "intersection bk (line a) (buffer bk (line b) (real_of_int bTol))"]
    by (auto simp: merge_layers_def Let_def split: sum.splits if_splits)
next
  assume "geom_type bk (difference bk (line a) (line b)) = ''MultiLineString'' \<and>
    diff_layers bk a b = Inr ps"
  then show "\<forall>p\<in>set ps. geom_length bk (line p) > real_of_int TOL"
    by (auto simp: diff_layers_def Let_def split: sum.splits if_splits)
next
  assume "merge_layers bk a b = Inr ([], res)"
  then show "res = [a, b]"
    by (auto simp: merge_layers_def Let_def split: sum.splits if_splits)
qed

theorem tolerance_floor_by_design_witness:
  "real_of_int TOL < geom_length axis_backend (line (segment 4 10 6)) \<and>
   real_of_int TOL < geom_length axis_backend (line (segment 0 10 2)) \<and>
   real_of_int TOL < geom_length axis_backend (line (segment 12 30 2)) \<and>
   merge_layers axis_backend (segment 0 3 1) (segment 20 30 1) =
     Inr ([], [segment 0 3 1, segment 20 30 1])"
proof -
  have multi: "geom_type axis_backend
      (difference axis_backend (line (segment 0 30 2)) (line (segment 10 12 4))) =
      ''MultiLineString''"
    by (simp add: axis_simps)
  have 1: "real_of_int TOL < geom_length axis_backend (line (segment 4 10 6))"
    using tolerance_floor_by_design
      [where bk = axis_backend and a = "segment 0 10 2" and b = "segment 5 15 4"
         and ov = "[segment 4 10 6]" and res = "[segment 0 4 2, segment 11 15 4]"]
      merge_0_10_with_5_15
    by simp
  have 2: "real_of_int TOL < geom_length axis_backend (line (segment 0 10 2)) \<and>
      real_of_int TOL < geom_length axis_backend (line (segment 12 30 2))"
    using tolerance_floor_by_design
      [where bk = axis_backend and a = "segment 0 30 2" and b = "segment 10 12 4"
         and ps = "[segment 0 10 2, segment 12 30 2]"]
      multi diff_0_30_minus_10_12 [of 4]
    by simp
  from 1 2 merge_0_3_with_20_30 show ?thesis
    by simp
qed

text \<open>
  C4 as stated fails: \<open>[(0,0)-(3,0)]\<close>, of length 3, merged with the far
  \<open>[(20,0)-(30,0)]\<close> comes back in the residual, unchanged.
\<close>

theorem tolerance_floor_counterexample:
  "merge_layers axis_backend (segment 0 3 1) (segment 20 30 1) =
     Inr ([], [segment 0 3 1, segment 20 30 1]) \<and>
   geom_length axis_backend (line (segment 0 3 1)) \<le> real_of_int TOL"
  by (simp add: core_defs axis_simps)

section \<open>Regrouping by count\<close>

lemma map_of_segments_add:
  "map_of (segments_add s segs) =
     (map_of segs)(count s \<mapsto> (case map_of segs (count s) of None \<Rightarrow> [s] | Some ss \<Rightarrow> ss @ [s]))"
  by (induction segs) (auto simp: fun_eq_iff)

lemma keys_segments_add:
  "map fst (segments_add s segs) =
     (if count s \<in> set (map fst segs) then map fst segs else map fst segs @ [count s])"
  by (induction segs) (force+)

lemma distinct_segments_add:
  "distinct (map fst segs) \<Longrightarrow> distinct (map fst (segments_add s segs))"
  by (simp add: keys_segments_add)

lemma distinct_segments_of:
  "distinct (map fst segs) \<Longrightarrow> distinct (map fst (segments_of xs segs))"
  by (induction xs arbitrary: segs) (simp_all add: distinct_segments_add)

lemma map_of_segments_of:
  "map_of (segments_of xs segs) c =
     (if c \<in> count ` set xs \<or> c \<in> dom (map_of segs)
      then Some ((case map_of segs c of None \<Rightarrow> [] | Some ss \<Rightarrow> ss) @
                 filter (\<lambda>s. count s = c) xs)
      else None)"
proof (induction xs arbitrary: segs)
  case Nil
  then show ?case by (auto split: option.splits)
next
  case (Cons s xs)
  show ?case
    by (simp add: Cons.IH map_of_segments_add dom_def split: option.splits)
qed

lemma set_segments_of:
  "set (segments_of xs []) = (\<lambda>c. (c, filter (\<lambda>s. count s = c) xs)) ` count ` set xs"
proof -
  have d: "distinct (map fst (segments_of xs []))"
    by (rule distinct_segments_of) simp
  have "(c, ss) \<in> set (segments_of xs []) \<longleftrightarrow>
        c \<in> count ` set xs \<and> ss = filter (\<lambda>s. count s = c) xs" for c ss
    using map_of_eq_Some_iff [OF d, of c ss] map_of_segments_of [of xs "[]" c]
    by (auto split: if_splits)
  then show ?thesis by (auto simp: image_iff)
qed

text \<open>
  C6, as amended. After the loop the accumulated pieces are grouped by count, and
  the output has exactly one entry for each count that occurs: its line is the
  line-merge of the lines of the pieces with that count, in their order in the
  accumulator (one geometry, of several lines when the group is not connected), and
  its count is that count.
\<close>

theorem regroup_one_entry_per_count:
  "set (regroup bk unique_list) =
     (\<lambda>c. \<lparr>line = linemerge_seq bk (map line (filter (\<lambda>s. count s = c) unique_list)),
            count = c\<rparr>) ` count ` set unique_list \<and>
   distinct (map count (regroup bk unique_list))"
proof
  show "set (regroup bk unique_list) =
     (\<lambda>c. \<lparr>line = linemerge_seq bk (map line (filter (\<lambda>s. count s = c) unique_list)),
            count = c\<rparr>) ` count ` set unique_list"
    by (simp add: regroup_def set_segments_of image_image)
  have "map count (regroup bk unique_list) = map fst (segments_of unique_list [])"
    by (simp add: regroup_def case_prod_unfold)
  then show "distinct (map count (regroup bk unique_list))"
    using distinct_segments_of [of "[]" unique_list] by simp
qed

text \<open>Two pieces with the count 2 that meet at \<open>(10,0)\<close> become one line; the piece
  with the count 3 is an entry of its own.\<close>

theorem regroup_one_entry_per_count_witness:
  "set (regroup axis_backend [segment 0 10 2, segment 20 30 3, segment 10 20 2]) =
     {segment 0 20 2, segment 20 30 3}"
  using regroup_one_entry_per_count
    [of axis_backend "[segment 0 10 2, segment 20 30 3, segment 10 20 2]"]
  by (auto simp: axis_simps)

text \<open>
  C6 as stated fails: two pieces with the count 2 that do not touch give one output
  entry, a \<open>MultiLineString\<close> of two connected pieces, not one entry for each
  connected piece.
\<close>

theorem regroup_counterexample:
  "regroup axis_backend [segment 0 10 2, segment 20 30 2] =
     [\<lparr>line = MultiLineString [[(0, 0), (10, 0)], [(20, 0), (30, 0)]], count = 2\<rparr>] \<and>
   geoms axis_backend (MultiLineString [[(0, 0), (10, 0)], [(20, 0), (30, 0)]]) =
     Some [line (segment 0 10 2), line (segment 20 30 2)]"
  by (simp add: regroup_def axis_simps)

section \<open>Scenario B\<close>

lemma worklist_loop_scenario_B:
  "worklist_loop axis_backend [segment 0 10 2, segment 5 15 4] [] =
     Some (Inr [segment 4 10 6, segment 0 4 2, segment 11 15 4])"
  by (simp add: worklist_loop.simps round_step_def core_defs axis_simps)

lemma reconcile_scenario_B:
  "reconcile axis_backend [segment 0 10 2, segment 5 15 4] =
     Some (Inr [segment 4 10 6, segment 0 4 2, segment 11 15 4])"
proof -
  have "regroup axis_backend [segment 4 10 6, segment 0 4 2, segment 11 15 4] =
      [segment 4 10 6, segment 0 4 2, segment 11 15 4]"
    by (simp add: regroup_def axis_simps)
  then show ?thesis
    by (simp add: reconcile_def worklist_loop_scenario_B)
qed

text \<open>
  C8, as amended. For \<open>A = [(0,0)-(10,0)]\<close> with count 2 and \<open>B = [(5,0)-(15,0)]\<close>
  with count 4, with \<open>TOL = 5\<close> and \<open>bTol = 1\<close>, the reconciliation returns; its
  output has the overlap piece \<open>[(4,0)-(10,0)]\<close> with count 6 (the part of \<open>A\<close>
  inside the buffer of \<open>B\<close>, which reaches \<open>bTol\<close> beyond the ends of \<open>B\<close>); and
  any other piece of the output is a residual cut where a buffer ends:
  \<open>[(0,0)-(4,0)]\<close> with count 2 or \<open>[(11,0)-(15,0)]\<close> with count 4.
\<close>

theorem reconcile_scenario_B_amended:
  "\<exists>out. reconcile axis_backend [segment 0 10 2, segment 5 15 4] = Some (Inr out) \<and>
     segment 4 10 6 \<in> set out \<and>
     set out \<subseteq> {segment 4 10 6, segment 0 4 2, segment 11 15 4}"
  by (simp add: reconcile_scenario_B)

text \<open>
  C8 as stated fails: the pieces \<open>[(0,0)-(5,0)]\<close>, \<open>[(5,0)-(10,0)]\<close> and
  \<open>[(10,0)-(15,0)]\<close> of the scenario are not in the output.
\<close>

theorem reconcile_scenario_B_counterexample:
  "map_option (map_sum id set) (reconcile axis_backend [segment 0 10 2, segment 5 15 4]) =
     Some (Inr {segment 4 10 6, segment 0 4 2, segment 11 15 4}) \<and>
   segment 0 5 2 \<notin> {segment 4 10 6, segment 0 4 2, segment 11 15 4} \<and>
   segment 5 10 6 \<notin> {segment 4 10 6, segment 0 4 2, segment 11 15 4} \<and>
   segment 10 15 4 \<notin> {segment 4 10 6, segment 0 4 2, segment 11 15 4}"
  by (simp add: reconcile_scenario_B) (simp add: segment_def)

section \<open>Geometry kinds the classification does not name\<close>

text \<open>
  C9, as amended. When a difference is neither a \<open>LineString\<close> nor a
  \<open>MultiLineString\<close>, \<open>diff_layers\<close> returns the empty sequence and signals
  nothing. When an intersection is neither a \<open>LineString\<close> nor a \<open>Point\<close>,
  \<open>merge_layers\<close> iterates over it as over a collection; if the geometry is not
  iterable, that iteration raises a \<open>TypeError\<close>.
\<close>

theorem unrecognised_kinds:
  "(geom_type bk (difference bk (line a) (line b)) \<noteq> ''LineString'' \<and>
    geom_type bk (difference bk (line a) (line b)) \<noteq> ''MultiLineString'' \<longrightarrow>
      diff_layers bk a b = Inr []) \<and>
   (geom_type bk (intersection bk (line a) (buffer bk (line b) (real_of_int bTol))) \<noteq>
      ''LineString'' \<and>
    geom_type bk (intersection bk (line a) (buffer bk (line b) (real_of_int bTol))) \<noteq>
      ''Point'' \<and>
    geoms bk (intersection bk (line a) (buffer bk (line b) (real_of_int bTol))) = None \<longrightarrow>
      merge_layers bk a b = Inl TypeError)"
  by (simp add: diff_layers_def merge_layers_def surviving_intersect_def iterate_def)

theorem unrecognised_kinds_witness:
  "diff_layers polygon_backend (segment 0 10 2) (segment 5 15 4) = Inr [] \<and>
   merge_layers polygon_backend (segment 0 10 2) (segment 5 15 4) = Inl TypeError"
  using unrecognised_kinds [of polygon_backend "segment 0 10 2" "segment 5 15 4"]
  by (simp add: polygon_backend_def axis_simps)

text \<open>
  C9 as stated fails: a difference that is a polygon is discarded, and
  \<open>diff_layers\<close> returns the empty sequence as for an empty difference.
\<close>

theorem unrecognised_kinds_counterexample:
  "geom_type polygon_backend
     (difference polygon_backend (line (segment 0 10 2)) (line (segment 5 15 4))) =
     ''Polygon'' \<and>
   diff_layers polygon_backend (segment 0 10 2) (segment 5 15 4) = Inr []"
  by (simp add: diff_layers_def polygon_backend_def axis_simps)

end
